theory Spec2Isabelle
  imports Main
begin

section \<open>The G-code interpreter of virtual\_printer.py\<close>

text \<open>
  A shallow embedding of \<^verbatim>\<open>virtual_printer.py\<close> and of \<^verbatim>\<open>run_gcode\<close> from
  \<^verbatim>\<open>resume_print.py\<close>.

  \<^item> A Python \<^verbatim>\<open>str\<close> is a \<open>string\<close>; a \<open>char\<close> stands for a code point below 256.
  \<^item> The numbers held by the printer (Python \<^verbatim>\<open>float\<close>, and the \<^verbatim>\<open>int\<close> 0 of
    \<^verbatim>\<open>g28\<close> and of \<^verbatim>\<open>args.get('X', 0)\<close>) are an abstract type \<open>'v\<close> with a \<open>0\<close> and
    a \<open>+\<close>; no law of arithmetic is assumed of them.
  \<^item> \<^verbatim>\<open>None\<close> in a field is \<open>None\<close>, a number \<open>v\<close> is \<open>Some v\<close>.
  \<^item> A raised exception is a value of type \<open>error\<close>. The handlers mutate the printer
    object in place, so an exception raised in the middle of a handler leaves the
    object as mutated so far: an \<open>outcome\<close> carries that object in both cases.
\<close>

subsection \<open>Exceptions\<close>

text \<open>
  The three \<^verbatim>\<open>RuntimeError\<close>s of the source are told apart by what their message is
  built from. The message of \<open>ArgumentsMissing\<close> prints a Python set, whose order is
  not fixed, so the set itself is kept.
\<close>

datatype message =
    NoParameter string string        \<comment> \<open>\<^verbatim>\<open>f'{cmd} has no parameter {arg[0]}'\<close>\<close>
  | ArgumentsMissing string "string set"  \<comment> \<open>\<^verbatim>\<open>f'required arguments missing for {cmd}: {missing}'\<close>\<close>
  | UnknownInstruction string        \<comment> \<open>\<^verbatim>\<open>f'unknown instruction {cmd}'\<close>\<close>

datatype error =
    RuntimeError message
  | UnboundLocalError    \<comment> \<open>a local variable read before its first assignment\<close>
  | IndexError           \<comment> \<open>\<^verbatim>\<open>arg[0]\<close> of an empty string\<close>
  | TypeError            \<comment> \<open>\<^verbatim>\<open>None + number\<close>; the message names the operand types only\<close>
  | ValueError           \<comment> \<open>raised by \<^verbatim>\<open>float\<close> on a malformed literal\<close>

datatype 's outcome =
    Returns 's           \<comment> \<open>the call returned; the object is in state \<open>'s\<close>\<close>
  | Raises error 's      \<comment> \<open>the call raised; the object was left in state \<open>'s\<close>\<close>

fun bind :: "'s outcome \<Rightarrow> ('s \<Rightarrow> 's outcome) \<Rightarrow> 's outcome" where
  "bind (Returns s) f = f s"
| "bind (Raises err s) f = Raises err s"

subsection \<open>String methods\<close>

text \<open>\<^verbatim>\<open>s.split(sep)\<close> for a separator of one character: never the empty list.\<close>

fun split :: "char \<Rightarrow> string \<Rightarrow> string list" where
  "split sep [] = [[]]"
| "split sep (c # cs) =
     (if c = sep then [] # split sep cs
      else (c # hd (split sep cs)) # tl (split sep cs))"

text \<open>\<^verbatim>\<open>str.isspace\<close> of one character, on the code points below 256.\<close>

definition isspace :: "char \<Rightarrow> bool" where
  "isspace c \<longleftrightarrow> of_char c \<in> {9, 10, 11, 12, 13, 28, 29, 30, 31, 32, 133, 160 :: nat}"

definition strip :: "string \<Rightarrow> string" where
  "strip s = rev (dropWhile isspace (rev (dropWhile isspace s)))"

definition startswith :: "string \<Rightarrow> string \<Rightarrow> bool" where
  "startswith s pre \<longleftrightarrow> take (length pre) s = pre"

subsection \<open>Parameter and GCodeInstruction\<close>

text \<open>
  The dicts \<^verbatim>\<open>required_params\<close> and \<^verbatim>\<open>optional_params\<close> are association lists,
  read with \<open>map_of\<close>; their keys are \<open>map fst\<close> of them.
  \<open>type\<close> is the callable stored in a \<^verbatim>\<open>Parameter\<close> (always \<^verbatim>\<open>float\<close> in
  \<^verbatim>\<open>create_printer\<close>): it converts the literal or raises.
\<close>

record 'v Parameter =
  char :: string
  type :: "string \<Rightarrow> error + 'v"

record 'v VirtualPrinter =
  x :: "'v option"
  y :: "'v option"
  z :: "'v option"
  e :: "'v option"
  feed_rate :: "'v option"
  bed_temp :: "'v option"
  hotend_temp :: "'v option"
  fan_speed :: "'v option"
  ignore_unknown :: bool
  abs_mode :: bool
  abs_e_mode :: bool

text \<open>
  The attribute \<^verbatim>\<open>instruction_set\<close> of a \<^verbatim>\<open>VirtualPrinter\<close> is kept beside the
  record, since the handlers stored in it take the record as their argument. No
  handler of the source reads or writes it.
\<close>

type_synonym 'v args = "string \<rightharpoonup> 'v"

type_synonym 'v handler = "'v VirtualPrinter \<Rightarrow> 'v args \<Rightarrow> 'v VirtualPrinter outcome"

record 'v GCodeInstruction =
  cmd :: string
  required_params :: "(string \<times> 'v Parameter) list"
  optional_params :: "(string \<times> 'v Parameter) list"
  func :: "'v handler"
  ignore_unknown :: bool

type_synonym 'v instruction_set = "string \<rightharpoonup> 'v GCodeInstruction"

text \<open>The property \<^verbatim>\<open>params\<close>: the required parameters updated with the optional ones.\<close>

definition params :: "'v GCodeInstruction \<Rightarrow> (string \<rightharpoonup> 'v Parameter)" where
  "params self = map_of (required_params self) ++ map_of (optional_params self)"

text \<open>
  The loop of \<^verbatim>\<open>parse\<close> over the tokens after the command; \<open>name\<close> is the
  local variable \<^verbatim>\<open>cmd\<close>, the first token of the line. Its state is the dict
  \<open>d\<close>, the set \<open>required\<close> and the local variable \<open>p\<close>, which is unbound (\<open>None\<close>)
  until the first token that reaches \<^verbatim>\<open>p = self.params[arg[0]]\<close>. The source reads
  \<^verbatim>\<open>p.char\<close> in \<^verbatim>\<open>required.add(p.char)\<close> before that assignment.
\<close>

fun parse_loop ::
  "'v GCodeInstruction \<Rightarrow> string \<Rightarrow> string list \<Rightarrow>
   'v args \<times> string set \<times> 'v Parameter option \<Rightarrow>
   error + 'v args \<times> string set \<times> 'v Parameter option" where
  "parse_loop self name [] st = Inr st"
| "parse_loop self name (arg # args) (d, required, p) =
     (case arg of
        [] \<Rightarrow> Inl IndexError
      | c # lit \<Rightarrow>
          (case params self [c] of
             None \<Rightarrow>
               if GCodeInstruction.ignore_unknown self
               then parse_loop self name args (d, required, p)
               else Inl (RuntimeError (NoParameter name [c]))
           | Some p' \<Rightarrow>
               (case (if [c] \<in> set (map fst (required_params self))
                      then (case p of None \<Rightarrow> Inl UnboundLocalError
                                    | Some q \<Rightarrow> Inr (insert (char q) required))
                      else Inr required) of
                  Inl err \<Rightarrow> Inl err
                | Inr required' \<Rightarrow>
                    (case type p' lit of
                       Inl err \<Rightarrow> Inl err
                     | Inr v \<Rightarrow>
                         parse_loop self name args
                           (d(char p' \<mapsto> v), required', Some p')))))"

definition parse :: "'v GCodeInstruction \<Rightarrow> string \<Rightarrow> error + 'v args" where
  "parse self gcode =
     (let cmd = hd (split CHR '' '' gcode); args = tl (split CHR '' '' gcode) in
      case parse_loop self cmd args (Map.empty, {}, None) of
        Inl err \<Rightarrow> Inl err
      | Inr (d, required, p) \<Rightarrow>
          (let missing = set (map fst (required_params self)) - required in
           if missing \<noteq> {} then Inl (RuntimeError (ArgumentsMissing cmd missing))
           else Inr d))"

subsection \<open>VirtualPrinter\<close>

text \<open>
  The constructor, with its parameters in the source's order. The last one,
  \<^verbatim>\<open>abs_mode\<close>, may be any Python value. The second component is the new, empty
  \<^verbatim>\<open>instruction_set\<close>.
\<close>

definition VirtualPrinter_init ::
  "'v option \<Rightarrow> 'v option \<Rightarrow> 'v option \<Rightarrow> 'v option \<Rightarrow> 'v option \<Rightarrow> 'v option \<Rightarrow>
   'v option \<Rightarrow> 'v option \<Rightarrow> bool \<Rightarrow> 'a \<Rightarrow> 'v VirtualPrinter \<times> 'v instruction_set" where
  "VirtualPrinter_init x0 y0 z0 e0 bed_temp0 hotend_temp0 fan_speed0 feed_rate0
       ignore_unknown0 abs_mode0 =
     (\<lparr> x = x0, y = y0, z = z0, e = e0, feed_rate = feed_rate0,
        bed_temp = bed_temp0, hotend_temp = hotend_temp0, fan_speed = fan_speed0,
        ignore_unknown = ignore_unknown0, abs_mode = True, abs_e_mode = True \<rparr>,
      Map.empty)"

text \<open>
  The dict comprehension \<^verbatim>\<open>{p[0]: Parameter(p[0], p[1]) for p in ps}\<close>: a later pair
  overwrites an earlier one of the same key, so the later pair comes first in the
  association list.
\<close>

definition param_dict ::
  "(string \<times> (string \<Rightarrow> error + 'v)) list \<Rightarrow> (string \<times> 'v Parameter) list" where
  "param_dict ps = rev (map (\<lambda>p. (fst p, \<lparr> char = fst p, type = snd p \<rparr>)) ps)"

definition register_gcode ::
  "string \<Rightarrow> (string \<times> (string \<Rightarrow> error + 'v)) list \<Rightarrow>
   (string \<times> (string \<Rightarrow> error + 'v)) list \<Rightarrow> 'v handler \<Rightarrow> bool \<Rightarrow>
   'v instruction_set \<Rightarrow> 'v instruction_set" where
  "register_gcode c required_ps optional_ps f ign iset =
     iset(c \<mapsto> \<lparr> cmd = c, required_params = param_dict required_ps,
                 optional_params = param_dict optional_ps, func = f,
                 ignore_unknown = ign \<rparr>)"

definition process_line ::
  "'v instruction_set \<Rightarrow> 'v VirtualPrinter \<Rightarrow> string \<Rightarrow> 'v VirtualPrinter outcome" where
  "process_line iset self gcode =
     (if startswith gcode '';'' then Returns self
      else
        (let gcode' = strip (hd (split CHR '';'' gcode));
             c = hd (split CHR '' '' gcode') in
         case iset c of
           None \<Rightarrow>
             if VirtualPrinter.ignore_unknown self then Returns self
             else Raises (RuntimeError (UnknownInstruction c)) self
         | Some instr \<Rightarrow>
             (case parse instr gcode' of
                Inl err \<Rightarrow> Raises err self
              | Inr args \<Rightarrow> func instr self args)))"

subsection \<open>The handlers\<close>

text \<open>\<^verbatim>\<open>args.get(k, default)\<close>, where the default is the current value of a field.\<close>

definition get :: "'v args \<Rightarrow> string \<Rightarrow> 'v option \<Rightarrow> 'v option" where
  "get args k dflt = (case args k of Some v \<Rightarrow> Some v | None \<Rightarrow> dflt)"

text \<open>\<^verbatim>\<open>args.get(k, 0)\<close>.\<close>

definition get0 :: "('v::zero) args \<Rightarrow> string \<Rightarrow> 'v" where
  "get0 args k = (case args k of Some v \<Rightarrow> v | None \<Rightarrow> 0)"

text \<open>
  \<^verbatim>\<open>printer.f += v\<close>: when the field holds \<^verbatim>\<open>None\<close> the addition raises
  \<^verbatim>\<open>TypeError\<close> and nothing is stored.
\<close>

definition iadd ::
  "('v VirtualPrinter \<Rightarrow> 'v option) \<Rightarrow> ('v option \<Rightarrow> 'v VirtualPrinter \<Rightarrow> 'v VirtualPrinter) \<Rightarrow>
   ('v::plus) \<Rightarrow> 'v VirtualPrinter \<Rightarrow> 'v VirtualPrinter outcome" where
  "iadd field store v printer =
     (case field printer of
        None \<Rightarrow> Raises TypeError printer
      | Some a \<Rightarrow> Returns (store (Some (a + v)) printer))"

definition g28 :: "('v::{zero,plus}) handler" where
  "g28 printer args = Returns (printer\<lparr> x := Some 0, y := Some 0, z := Some 0 \<rparr>)"

definition g0 :: "('v::{zero,plus}) handler" where
  "g0 printer args =
     bind (if abs_mode printer
           then Returns (printer\<lparr> x := get args ''X'' (x printer),
                                  y := get args ''Y'' (y printer),
                                  z := get args ''Z'' (z printer) \<rparr>)
           else bind (iadd x (\<lambda>v p. p\<lparr> x := v \<rparr>) (get0 args ''X'') printer) (\<lambda>printer.
                bind (iadd y (\<lambda>v p. p\<lparr> y := v \<rparr>) (get0 args ''Y'') printer) (\<lambda>printer.
                      iadd z (\<lambda>v p. p\<lparr> z := v \<rparr>) (get0 args ''Z'') printer)))
       (\<lambda>printer.
     bind (if abs_e_mode printer
           then Returns (printer\<lparr> e := get args ''E'' (e printer) \<rparr>)
           else iadd e (\<lambda>v p. p\<lparr> e := v \<rparr>) (get0 args ''E'') printer)
       (\<lambda>printer.
     Returns (printer\<lparr> feed_rate := get args ''F'' (feed_rate printer) \<rparr>)))"

definition m104 :: "('v::{zero,plus}) handler" where
  "m104 printer args = Returns (printer\<lparr> hotend_temp := get args ''S'' (hotend_temp printer) \<rparr>)"

definition m140 :: "('v::{zero,plus}) handler" where
  "m140 printer args = Returns (printer\<lparr> bed_temp := get args ''S'' (bed_temp printer) \<rparr>)"

definition g90 :: "('v::{zero,plus}) handler" where
  "g90 printer args = Returns (printer\<lparr> abs_mode := True, abs_e_mode := True \<rparr>)"

definition g91 :: "('v::{zero,plus}) handler" where
  "g91 printer args = Returns (printer\<lparr> abs_mode := False, abs_e_mode := False \<rparr>)"

definition g92 :: "('v::{zero,plus}) handler" where
  "g92 printer args =
     Returns (printer\<lparr> x := get args ''X'' (x printer),
                       y := get args ''Y'' (y printer),
                       z := get args ''Z'' (z printer),
                       e := get args ''E'' (e printer) \<rparr>)"

definition m82 :: "('v::{zero,plus}) handler" where
  "m82 printer args = Returns (printer\<lparr> abs_e_mode := True \<rparr>)"

definition m83 :: "('v::{zero,plus}) handler" where
  "m83 printer args = Returns (printer\<lparr> abs_e_mode := False \<rparr>)"

definition m106 :: "('v::{zero,plus}) handler" where
  "m106 printer args = Returns (printer\<lparr> fan_speed := get args ''S'' (fan_speed printer) \<rparr>)"

subsection \<open>create\_printer and run\_gcode\<close>

text \<open>
  \<open>float\<close> is Python's builtin of that name, which the source passes as the type of
  every parameter: it is a parameter of the model. No call gives \<^verbatim>\<open>ignore_unknown\<close>,
  so every instruction gets the default \<^verbatim>\<open>True\<close>, as the printer does.
\<close>

definition create_printer ::
  "(string \<Rightarrow> error + 'v) \<Rightarrow> ('v::{zero,plus}) VirtualPrinter \<times> 'v instruction_set" where
  "create_printer float =
     (let (p, iset) = VirtualPrinter_init None None None None None None None None True True;
          iset = register_gcode ''G28'' [] [] g28 True iset;
          iset = register_gcode ''G0'' [] [(''X'', float), (''Y'', float), (''Z'', float),
                   (''E'', float), (''F'', float)] g0 True iset;
          iset = register_gcode ''G1'' [] [(''X'', float), (''Y'', float), (''Z'', float),
                   (''E'', float)] g0 True iset;
          iset = register_gcode ''M104'' [] [(''S'', float)] m104 True iset;
          iset = register_gcode ''M109'' [] [(''S'', float)] m104 True iset;
          iset = register_gcode ''M140'' [] [(''S'', float)] m140 True iset;
          iset = register_gcode ''M190'' [] [(''S'', float)] m140 True iset;
          iset = register_gcode ''M106'' [] [(''S'', float)] m106 True iset;
          iset = register_gcode ''G90'' [] [] g90 True iset;
          iset = register_gcode ''G91'' [] [] g91 True iset;
          iset = register_gcode ''M82'' [] [] m82 True iset;
          iset = register_gcode ''M83'' [] [] m83 True iset;
          iset = register_gcode ''G92'' [] [(''X'', float), (''Y'', float), (''Z'', float),
                   (''E'', float)] g92 True iset
      in (p, iset))"

text \<open>\<^verbatim>\<open>run_gcode\<close>: the loop ends at the first line that raises.\<close>

fun run_gcode ::
  "'v instruction_set \<Rightarrow> 'v VirtualPrinter \<Rightarrow> string list \<Rightarrow> 'v VirtualPrinter outcome" where
  "run_gcode iset printer [] = Returns printer"
| "run_gcode iset printer (line # gcode) =
     bind (process_line iset printer line) (\<lambda>printer. run_gcode iset printer gcode)"

subsection \<open>Notions used to state the properties\<close>

text \<open>
  The tokens that \<^verbatim>\<open>process_line\<close> and \<^verbatim>\<open>parse\<close> see in a line that does not
  start with \<^verbatim>\<open>;\<close>: the text before the first \<^verbatim>\<open>;\<close>, stripped, split at every
  single space. The first token is the command.
\<close>

definition tokens :: "string \<Rightarrow> string list" where
  "tokens gcode = split CHR '' '' (strip (hd (split CHR '';'' gcode)))"

text \<open>
  What a token list gives for the parameter letter \<open>k\<close>: the literal of the last
  token that starts with \<open>k\<close>, converted by \<open>float\<close>.
\<close>

definition given :: "(string \<Rightarrow> error + 'v) \<Rightarrow> string \<Rightarrow> string list \<Rightarrow> 'v option" where
  "given float k toks =
     (case filter (\<lambda>t. take 1 t = k) (rev toks) of
        [] \<Rightarrow> None
      | t # _ \<Rightarrow> (case float (drop 1 t) of Inr v \<Rightarrow> Some v | Inl _ \<Rightarrow> None))"

text \<open>
  A stand-in for Python's \<^verbatim>\<open>float\<close> in the closed examples below, with \<open>int\<close> for
  the numbers: on a non-empty string of the digits 0 to 9 it is the number that
  \<^verbatim>\<open>float\<close> returns. The examples use no other literal; on every other string the
  stand-in answers \<open>ValueError\<close>, which is not always what \<^verbatim>\<open>float\<close> does.
\<close>

definition digit :: "char \<Rightarrow> int option" where
  "digit c = (let n = of_char c :: nat in if 48 \<le> n \<and> n \<le> 57 then Some (int n - 48) else None)"

fun digits :: "int \<Rightarrow> string \<Rightarrow> error + int" where
  "digits n [] = Inr n"
| "digits n (c # cs) = (case digit c of None \<Rightarrow> Inl ValueError | Some k \<Rightarrow> digits (10 * n + k) cs)"

definition float_digits :: "string \<Rightarrow> error + int" where
  "float_digits s = (if s = [] then Inl ValueError else digits 0 s)"

section \<open>Lemmas\<close>

subsection \<open>Strings and tokens\<close>

lemma hd_split_takeWhile: "hd (split sep s) = takeWhile (\<lambda>c. c \<noteq> sep) s"
  by (induction s) auto

lemma given_Nil: "given fl k [] = None"
  by (simp add: given_def)

lemma given_Cons:
  "given fl k (t # ts) =
     (if \<exists>u\<in>set ts. take 1 u = k then given fl k ts
      else if take 1 t = k then (case fl (drop 1 t) of Inr v \<Rightarrow> Some v | Inl _ \<Rightarrow> None)
      else None)"
proof (cases "filter (\<lambda>t. take 1 t = k) (rev ts)")
  case Nil
  then have "\<not> (\<exists>u\<in>set ts. take 1 u = k)"
    by (auto simp: filter_empty_conv)
  with Nil show ?thesis by (simp add: given_def)
next
  case (Cons u us)
  then have "u \<in> set (filter (\<lambda>t. take 1 t = k) (rev ts))" by simp
  then have "\<exists>u\<in>set ts. take 1 u = k" by auto
  with Cons show ?thesis by (simp add: given_def)
qed

lemma given_None: "\<forall>u\<in>set ts. take 1 u \<noteq> k \<Longrightarrow> given fl k ts = None"
  by (simp add: given_def filter_empty_conv)

lemma given_Some:
  assumes "u \<in> set ts" "take 1 u = k"
    and conv: "\<And>w. w \<in> set ts \<Longrightarrow> take 1 w = k \<Longrightarrow> \<exists>v. fl (drop 1 w) = Inr v"
  shows "\<exists>v. given fl k ts = Some v"
proof (cases "filter (\<lambda>t. take 1 t = k) (rev ts)")
  case Nil
  with assms(1,2) show ?thesis by (auto simp: filter_empty_conv)
next
  case (Cons w ws)
  then have "w \<in> set (filter (\<lambda>t. take 1 t = k) (rev ts))" by simp
  then have "w \<in> set ts" "take 1 w = k" by auto
  from conv[OF this] obtain v where "fl (drop 1 w) = Inr v" by blast
  with Cons show ?thesis by (simp add: given_def)
qed

lemma parse_loop_uniform:
  assumes R: "required_params self = []"
    and I: "GCodeInstruction.ignore_unknown self"
    and P: "\<And>k. params self k = (if k \<in> L then Some \<lparr> char = k, type = fl \<rparr> else None)"
    and T: "\<forall>t\<in>set toks. t \<noteq> [] \<and> (take 1 t \<in> L \<longrightarrow> (\<exists>v. fl (drop 1 t) = Inr v))"
  shows "\<exists>d' p'. parse_loop self name toks (d, req, p) = Inr (d', req, p') \<and>
           (\<forall>k. d' k = (if k \<in> L then (case given fl k toks of Some v \<Rightarrow> Some v | None \<Rightarrow> d k)
                         else d k))"
  using T
proof (induction toks arbitrary: d p)
  case Nil
  then show ?case by (simp add: given_Nil)
next
  case (Cons t toks)
  then obtain c lit where t: "t = c # lit" by (cases t) auto
  from Cons.prems have rest: "\<forall>t\<in>set toks. t \<noteq> [] \<and> (take 1 t \<in> L \<longrightarrow> (\<exists>v. fl (drop 1 t) = Inr v))"
    by simp
  have conv: "\<And>u. u \<in> set toks \<Longrightarrow> take 1 u \<in> L \<Longrightarrow> \<exists>v. fl (drop 1 u) = Inr v"
    using rest by blast
  show ?case
  proof (cases "[c] \<in> L")
    case False
    from Cons.IH[OF rest, of d p] obtain d' p' where
      run: "parse_loop self name toks (d, req, p) = Inr (d', req, p')"
      and dom: "\<forall>k. d' k = (if k \<in> L then (case given fl k toks of Some v \<Rightarrow> Some v | None \<Rightarrow> d k)
                         else d k)" by blast
    from False run have "parse_loop self name (t # toks) (d, req, p) = Inr (d', req, p')"
      by (simp add: t P I)
    moreover have "\<forall>k. d' k = (if k \<in> L then (case given fl k (t # toks) of Some v \<Rightarrow> Some v | None \<Rightarrow> d k)
                         else d k)"
      using dom False by (auto simp: given_Cons t given_None)
    ultimately show ?thesis by blast
  next
    case True
    with Cons.prems t obtain v where v: "fl lit = Inr v" by auto
    from Cons.IH[OF rest, of "d([c] \<mapsto> v)" "Some \<lparr> char = [c], type = fl \<rparr>"] obtain d' p' where
      run: "parse_loop self name toks (d([c] \<mapsto> v), req, Some \<lparr> char = [c], type = fl \<rparr>) = Inr (d', req, p')"
      and dom: "\<forall>k. d' k = (if k \<in> L then (case given fl k toks of Some v \<Rightarrow> Some v | None \<Rightarrow> (d([c] \<mapsto> v)) k)
                         else (d([c] \<mapsto> v)) k)" by blast
    from True v run have "parse_loop self name (t # toks) (d, req, p) = Inr (d', req, p')"
      by (simp add: t P R)
    moreover have "\<forall>k. d' k = (if k \<in> L then (case given fl k (t # toks) of Some v \<Rightarrow> Some v | None \<Rightarrow> d k)
                         else d k)"
    proof
      fix k
      show "d' k = (if k \<in> L then (case given fl k (t # toks) of Some v \<Rightarrow> Some v | None \<Rightarrow> d k)
                         else d k)"
      proof (cases "\<exists>u\<in>set toks. take 1 u = k")
        case ex: True
        then obtain u where u: "u \<in> set toks" "take 1 u = k" by blast
        show ?thesis
        proof (cases "k \<in> L")
          case kL: True
          have "\<exists>w. given fl k toks = Some w"
          proof (rule given_Some[OF u])
            fix w assume "w \<in> set toks" "take 1 w = k"
            with conv kL show "\<exists>v. fl (drop 1 w) = Inr v" by blast
          qed
          then obtain w where "given fl k toks = Some w" ..
          with dom kL ex show ?thesis by (simp add: given_Cons)
        next
          case kL: False
          with dom True show ?thesis by auto
        qed
      next
        case nex: False
        then have "given fl k toks = None"
          by (simp add: given_None)
        with dom nex v True show ?thesis
          by (auto simp: given_Cons t)
      qed
    qed
    ultimately show ?thesis by blast
  qed
qed

lemma dropWhile_snoc: "\<not> P b \<Longrightarrow> dropWhile P (xs @ [b]) = dropWhile P xs @ [b]"
  by (induction xs) auto

lemma strip_Nil_iff: "strip s = [] \<longleftrightarrow> (\<forall>c\<in>set s. isspace c)"
proof
  assume "strip s = []"
  then have a: "dropWhile isspace (rev (dropWhile isspace s)) = []" by (simp add: strip_def)
  have "dropWhile isspace s = []"
  proof (cases "dropWhile isspace s")
    case Nil then show ?thesis .
  next
    case (Cons b r)
    then have "\<not> isspace b" using hd_dropWhile[of isspace s] by auto
    with a Cons show ?thesis by (simp add: dropWhile_snoc)
  qed
  then show "\<forall>c\<in>set s. isspace c" by (simp add: dropWhile_eq_Nil_conv)
next
  assume "\<forall>c\<in>set s. isspace c"
  then show "strip s = []" by (auto simp: strip_def dest: set_dropWhileD)
qed

lemma strip_Cons:
  assumes "strip s = a # r"
  shows "\<exists>r'. dropWhile isspace s = a # r'"
proof (cases "dropWhile isspace s")
  case Nil
  with assms show ?thesis by (simp add: strip_def)
next
  case (Cons b r')
  then have "\<not> isspace b" using hd_dropWhile[of isspace s] by auto
  with Cons have "strip s = b # rev (dropWhile isspace (rev r'))"
    by (simp add: strip_def dropWhile_snoc)
  with assms Cons show ?thesis by simp
qed

lemma not_isspace_semicolon: "\<not> isspace CHR '';''"
  by (simp add: isspace_def)

lemma comment_or_blank:
  assumes "strip gcode = [] \<or> startswith (strip gcode) '';''"
  shows "startswith gcode '';'' \<or> strip (hd (split CHR '';'' gcode)) = []"
proof -
  have "\<forall>c\<in>set (takeWhile (\<lambda>c. c \<noteq> CHR '';'') gcode). isspace c"
  proof (cases "strip gcode = []")
    case True
    then have "\<forall>c\<in>set gcode. isspace c" by (simp add: strip_Nil_iff)
    then show ?thesis by (meson set_takeWhileD)
  next
    case False
    with assms obtain r where "strip gcode = CHR '';'' # r"
      by (cases "strip gcode") (auto simp: startswith_def)
    then obtain r' where d: "dropWhile isspace gcode = CHR '';'' # r'"
      using strip_Cons by blast
    have g: "gcode = takeWhile isspace gcode @ CHR '';'' # r'"
      using takeWhile_dropWhile_id[of isspace gcode] d by simp
    have "takeWhile (\<lambda>c. c \<noteq> CHR '';'') (takeWhile isspace gcode @ CHR '';'' # r')
            = takeWhile isspace gcode"
      by (subst takeWhile_append2) (auto dest: set_takeWhileD simp: not_isspace_semicolon)
    with g have "takeWhile (\<lambda>c. c \<noteq> CHR '';'') gcode = takeWhile isspace gcode" by simp
    then show ?thesis by (auto dest: set_takeWhileD)
  qed
  then show ?thesis by (simp add: strip_Nil_iff hd_split_takeWhile)
qed

lemma command_not_comment:
  assumes "tokens gcode = c # toks" "c \<noteq> []"
  shows "\<not> startswith gcode '';''"
proof
  assume "startswith gcode '';''"
  then obtain r where "gcode = CHR '';'' # r"
    by (cases gcode) (auto simp: startswith_def)
  then have "tokens gcode = [[]]" by (simp add: tokens_def strip_def)
  with assms show False by simp
qed

lemma parse_uniform:
  assumes R: "required_params self = []"
    and I: "GCodeInstruction.ignore_unknown self"
    and P: "\<And>k. params self k = (if k \<in> L then Some \<lparr> char = k, type = fl \<rparr> else None)"
    and S: "split CHR '' '' g = c # toks"
    and T: "\<forall>t\<in>set toks. t \<noteq> [] \<and> (take 1 t \<in> L \<longrightarrow> (\<exists>v. fl (drop 1 t) = Inr v))"
  shows "\<exists>d. parse self g = Inr d \<and> (\<forall>k. d k = (if k \<in> L then given fl k toks else None))"
proof -
  from parse_loop_uniform[OF R I P T, of c Map.empty "{}" None]
  obtain d p' where run: "parse_loop self c toks (Map.empty, {}, None) = Inr (d, {}, p')"
    and d: "\<forall>k. d k = (if k \<in> L then (case given fl k toks of Some v \<Rightarrow> Some v | None \<Rightarrow> None)
                         else None)" by blast
  from run have "parse self g = Inr d" by (simp add: parse_def S R)
  moreover from d have "\<forall>k. d k = (if k \<in> L then given fl k toks else None)"
    by (auto split: option.splits)
  ultimately show ?thesis by blast
qed

lemma process_line_uniform:
  assumes N: "\<not> startswith gcode '';''"
    and S: "tokens gcode = c # toks"
    and L: "iset c = Some instr"
    and R: "required_params instr = []"
    and I: "GCodeInstruction.ignore_unknown instr"
    and P: "\<And>k. params instr k = (if k \<in> L then Some \<lparr> char = k, type = fl \<rparr> else None)"
    and T: "\<forall>t\<in>set toks. t \<noteq> [] \<and> (take 1 t \<in> L \<longrightarrow> (\<exists>v. fl (drop 1 t) = Inr v))"
  shows "\<exists>d. process_line iset printer gcode = func instr printer d \<and>
           (\<forall>k. d k = (if k \<in> L then given fl k toks else None))"
proof -
  from S have S': "split CHR '' '' (strip (hd (split CHR '';'' gcode))) = c # toks"
    by (simp add: tokens_def)
  from parse_uniform[OF R I P S' T] obtain d where
    "parse instr (strip (hd (split CHR '';'' gcode))) = Inr d"
    and d: "\<forall>k. d k = (if k \<in> L then given fl k toks else None)" by blast
  then have "process_line iset printer gcode = func instr printer d"
    using N L S' by (simp add: process_line_def)
  with d show ?thesis by blast
qed

subsection \<open>The registry of create\_printer and its handlers\<close>

lemmas registry_defs = create_printer_def VirtualPrinter_init_def register_gcode_def Let_def

lemma lookup_G28:
  "snd (create_printer fl) ''G28'' =
     Some \<lparr> cmd = ''G28'', required_params = [], optional_params = [], func = g28,
            ignore_unknown = True \<rparr>"
  by (simp add: registry_defs param_dict_def)

lemma lookup_G0:
  "snd (create_printer fl) ''G0'' =
     Some \<lparr> cmd = ''G0'', required_params = [],
            optional_params = param_dict [(''X'', fl), (''Y'', fl), (''Z'', fl), (''E'', fl), (''F'', fl)],
            func = g0, ignore_unknown = True \<rparr>"
  by (simp add: registry_defs param_dict_def)

lemma lookup_G1:
  "snd (create_printer fl) ''G1'' =
     Some \<lparr> cmd = ''G1'', required_params = [],
            optional_params = param_dict [(''X'', fl), (''Y'', fl), (''Z'', fl), (''E'', fl)],
            func = g0, ignore_unknown = True \<rparr>"
  by (simp add: registry_defs param_dict_def)

lemma lookup_G92:
  "snd (create_printer fl) ''G92'' =
     Some \<lparr> cmd = ''G92'', required_params = [],
            optional_params = param_dict [(''X'', fl), (''Y'', fl), (''Z'', fl), (''E'', fl)],
            func = g92, ignore_unknown = True \<rparr>"
  by (simp add: registry_defs param_dict_def)

lemma params_none:
  "params \<lparr> cmd = c, required_params = [], optional_params = [], func = f,
           ignore_unknown = True \<rparr> k = (if k \<in> {} then Some \<lparr> char = k, type = fl \<rparr> else None)"
  by (simp add: params_def)

lemma params_XYZE:
  "params \<lparr> cmd = c, required_params = [],
           optional_params = param_dict [(''X'', fl), (''Y'', fl), (''Z'', fl), (''E'', fl)],
           func = f, ignore_unknown = True \<rparr> k =
     (if k \<in> {''X'', ''Y'', ''Z'', ''E''} then Some \<lparr> char = k, type = fl \<rparr> else None)"
  by (simp add: params_def param_dict_def)

lemma params_XYZEF:
  "params \<lparr> cmd = c, required_params = [],
           optional_params = param_dict [(''X'', fl), (''Y'', fl), (''Z'', fl), (''E'', fl), (''F'', fl)],
           func = f, ignore_unknown = True \<rparr> k =
     (if k \<in> {''X'', ''Y'', ''Z'', ''E'', ''F''} then Some \<lparr> char = k, type = fl \<rparr> else None)"
  by (simp add: params_def param_dict_def)



lemma g0_position_unknown:
  "\<not> abs_mode printer \<Longrightarrow> x printer = None \<or> y printer = None \<or> z printer = None \<Longrightarrow>
   \<exists>s. g0 printer args = Raises TypeError s"
  by (auto simp: g0_def iadd_def split: option.splits)

lemma g0_extrusion_unknown:
  "\<not> abs_e_mode printer \<Longrightarrow> e printer = None \<Longrightarrow> \<exists>s. g0 printer args = Raises TypeError s"
  by (auto simp: g0_def iadd_def split: option.splits)



subsection \<open>Lines of the registered commands\<close>

lemma process_line_G0:
  assumes N: "\<not> startswith gcode '';''"
    and S: "tokens gcode = ''G0'' # toks"
    and T: "\<forall>t\<in>set toks. t \<noteq> [] \<and>
              (take 1 t \<in> {''X'', ''Y'', ''Z'', ''E'', ''F''} \<longrightarrow> (\<exists>v. fl (drop 1 t) = Inr v))"
  shows "\<exists>d. process_line (snd (create_printer fl)) printer gcode = g0 printer d \<and>
           (\<forall>k. d k = (if k \<in> {''X'', ''Y'', ''Z'', ''E'', ''F''} then given fl k toks else None))"
proof -
  let ?instr = "\<lparr> cmd = ''G0'', required_params = [],
            optional_params = param_dict [(''X'', fl), (''Y'', fl), (''Z'', fl), (''E'', fl), (''F'', fl)],
            func = g0, ignore_unknown = True \<rparr>"
  have "\<exists>d. process_line (snd (create_printer fl)) printer gcode = func ?instr printer d \<and>
           (\<forall>k. d k = (if k \<in> {''X'', ''Y'', ''Z'', ''E'', ''F''} then given fl k toks else None))"
  proof (rule process_line_uniform[where c = "''G0''" and fl = fl])
    show "\<not> startswith gcode '';''" by (rule N)
    show "tokens gcode = ''G0'' # toks" by (rule S)
    show "snd (create_printer fl) ''G0'' = Some ?instr" by (rule lookup_G0)
    show "required_params ?instr = []" by simp
    show "GCodeInstruction.ignore_unknown ?instr" by simp
    show "params ?instr k = (if k \<in> {''X'', ''Y'', ''Z'', ''E'', ''F''}
            then Some \<lparr> char = k, type = fl \<rparr> else None)" for k
      by (rule params_XYZEF)
    show "\<forall>t\<in>set toks. t \<noteq> [] \<and>
              (take 1 t \<in> {''X'', ''Y'', ''Z'', ''E'', ''F''} \<longrightarrow> (\<exists>v. fl (drop 1 t) = Inr v))"
      by (rule T)
  qed
  then show ?thesis by simp
qed

lemma process_line_XYZE:
  assumes N: "\<not> startswith gcode '';''"
    and S: "tokens gcode = c # toks"
    and L: "snd (create_printer fl) c = Some \<lparr> cmd = c, required_params = [],
            optional_params = param_dict [(''X'', fl), (''Y'', fl), (''Z'', fl), (''E'', fl)],
            func = f, ignore_unknown = True \<rparr>"
    and T: "\<forall>t\<in>set toks. t \<noteq> [] \<and>
              (take 1 t \<in> {''X'', ''Y'', ''Z'', ''E''} \<longrightarrow> (\<exists>v. fl (drop 1 t) = Inr v))"
  shows "\<exists>d. process_line (snd (create_printer fl)) printer gcode = f printer d \<and>
           (\<forall>k. d k = (if k \<in> {''X'', ''Y'', ''Z'', ''E''} then given fl k toks else None))"
proof -
  let ?instr = "\<lparr> cmd = c, required_params = [],
            optional_params = param_dict [(''X'', fl), (''Y'', fl), (''Z'', fl), (''E'', fl)],
            func = f, ignore_unknown = True \<rparr>"
  have "\<exists>d. process_line (snd (create_printer fl)) printer gcode = func ?instr printer d \<and>
           (\<forall>k. d k = (if k \<in> {''X'', ''Y'', ''Z'', ''E''} then given fl k toks else None))"
  proof (rule process_line_uniform[where c = c and fl = fl])
    show "\<not> startswith gcode '';''" by (rule N)
    show "tokens gcode = c # toks" by (rule S)
    show "snd (create_printer fl) c = Some ?instr" by (rule L)
    show "required_params ?instr = []" by simp
    show "GCodeInstruction.ignore_unknown ?instr" by simp
    show "params ?instr k = (if k \<in> {''X'', ''Y'', ''Z'', ''E''}
            then Some \<lparr> char = k, type = fl \<rparr> else None)" for k
      by (rule params_XYZE)
    show "\<forall>t\<in>set toks. t \<noteq> [] \<and>
              (take 1 t \<in> {''X'', ''Y'', ''Z'', ''E''} \<longrightarrow> (\<exists>v. fl (drop 1 t) = Inr v))"
      by (rule T)
  qed
  then show ?thesis by simp
qed

lemma tokens_G1_X5: "tokens ''G1 X5'' = [''G1'', ''X5'']"
  by (simp add: tokens_def strip_def isspace_def)

section \<open>The claims\<close>

subsection \<open>C1: a relative move on an unknown coordinate\<close>

text \<open>
  Claim C1, as the code has it. A \<^verbatim>\<open>G0\<close> or \<^verbatim>\<open>G1\<close> line that parses, processed
  while the position mode is relative, raises when a coordinate it targets is
  unknown: \<open>X\<close>, \<open>Y\<close> or \<open>Z\<close>, and also \<open>E\<close> when the extrusion mode is relative
  too. The unknown value is never taken for zero. What is raised is the
  \<^verbatim>\<open>TypeError\<close> of \<^verbatim>\<open>None + number\<close>, which names no coordinate; the source has no
  \<^verbatim>\<open>InvalidStateError\<close>.
\<close>

theorem relative_move_unknown_coordinate:
  assumes S: "tokens gcode = c # toks"
    and C: "c = ''G0'' \<or> c = ''G1''"
    and T: "\<forall>t\<in>set toks. t \<noteq> [] \<and>
              (take 1 t \<in> {''X'', ''Y'', ''Z'', ''E'', ''F''} \<longrightarrow> (\<exists>v. float (drop 1 t) = Inr v))"
    and M: "\<not> abs_mode printer"
    and K: "\<exists>t\<in>set toks. take 1 t = k"
    and U: "k = ''X'' \<and> x printer = None \<or> k = ''Y'' \<and> y printer = None \<or>
            k = ''Z'' \<and> z printer = None \<or>
            k = ''E'' \<and> e printer = None \<and> \<not> abs_e_mode printer"
  shows "\<exists>s. process_line (snd (create_printer float)) printer gcode = Raises TypeError s"
proof -
  have N: "\<not> startswith gcode '';''"
    using command_not_comment[OF S] C by auto
  have raises: "\<exists>s. g0 printer d = Raises TypeError s" for d
    using U M g0_position_unknown[of printer d] g0_extrusion_unknown[of printer d] by blast
  from C show ?thesis
  proof
    assume c: "c = ''G0''"
    have T': "\<forall>t\<in>set toks. t \<noteq> [] \<and>
              (take 1 t \<in> {''X'', ''Y'', ''Z'', ''E'', ''F''} \<longrightarrow> (\<exists>v. float (drop 1 t) = Inr v))"
      using T .
    from process_line_G0[OF N S[unfolded c] T', of printer]
    obtain d where "process_line (snd (create_printer float)) printer gcode = g0 printer d"
      by auto
    with raises show ?thesis by simp
  next
    assume c: "c = ''G1''"
    have T': "\<forall>t\<in>set toks. t \<noteq> [] \<and>
              (take 1 t \<in> {''X'', ''Y'', ''Z'', ''E''} \<longrightarrow> (\<exists>v. float (drop 1 t) = Inr v))"
      using T by blast
    from process_line_XYZE[OF N S[unfolded c] lookup_G1 T', of printer]
    obtain d where "process_line (snd (create_printer float)) printer gcode = g0 printer d"
      by auto
    with raises show ?thesis by simp
  qed
qed

text \<open>
  The theorem at \<^verbatim>\<open>G1 X5\<close>, on the fresh printer after \<^verbatim>\<open>G91\<close>.
\<close>

theorem relative_move_unknown_coordinate_witness:
  "\<exists>s. process_line (snd (create_printer float_digits))
          (fst (create_printer float_digits)\<lparr> abs_mode := False, abs_e_mode := False \<rparr>)
          ''G1 X5'' = Raises TypeError s"
proof (rule relative_move_unknown_coordinate[where c = "''G1''" and toks = "[''X5'']" and k = "''X''"])
  show "tokens ''G1 X5'' = [''G1'', ''X5'']" by (rule tokens_G1_X5)
  show "''G1'' = ''G0'' \<or> ''G1'' = ''G1''" by simp
  show "\<forall>t\<in>set [''X5'']. t \<noteq> [] \<and>
          (take 1 t \<in> {''X'', ''Y'', ''Z'', ''E'', ''F''} \<longrightarrow> (\<exists>v. float_digits (drop 1 t) = Inr v))"
    by (simp add: float_digits_def digit_def)
  show "\<not> abs_mode (fst (create_printer float_digits)\<lparr> abs_mode := False, abs_e_mode := False \<rparr>)"
    by simp
  show "\<exists>t\<in>set [''X5'']. take 1 t = ''X''" by simp
  show "''X'' = ''X'' \<and> x (fst (create_printer float_digits)\<lparr> abs_mode := False, abs_e_mode := False \<rparr>) = None \<or>
        ''X'' = ''Y'' \<and> y (fst (create_printer float_digits)\<lparr> abs_mode := False, abs_e_mode := False \<rparr>) = None \<or>
        ''X'' = ''Z'' \<and> z (fst (create_printer float_digits)\<lparr> abs_mode := False, abs_e_mode := False \<rparr>) = None \<or>
        ''X'' = ''E'' \<and> e (fst (create_printer float_digits)\<lparr> abs_mode := False, abs_e_mode := False \<rparr>) = None \<and>
          \<not> abs_e_mode (fst (create_printer float_digits)\<lparr> abs_mode := False, abs_e_mode := False \<rparr>)"
    by (simp add: registry_defs)
qed

text \<open>
  Scenario 5 of the specification: on the fresh printer the lines \<^verbatim>\<open>G91\<close>,
  \<^verbatim>\<open>G1 X5\<close> end in a \<^verbatim>\<open>TypeError\<close>, an exception without a coordinate's name.
\<close>

theorem relative_move_raises_TypeError_example:
  "run_gcode (snd (create_printer float_digits)) (fst (create_printer float_digits))
     [''G91'', ''G1 X5''] =
   Raises TypeError (fst (create_printer float_digits)\<lparr> abs_mode := False, abs_e_mode := False \<rparr>)"
  by code_simp

subsection \<open>C2: the state after a line that fails\<close>




subsection \<open>C3: the feed rate\<close>

text \<open>
  Claim C3 at the line \<^verbatim>\<open>G1 F3000\<close> on the fresh printer: \<^verbatim>\<open>create_printer\<close>
  registers \<^verbatim>\<open>G1\<close> without the parameter \<open>F\<close>, so \<^verbatim>\<open>parse\<close> skips the token and
  the feed rate stays unknown. The same line with \<^verbatim>\<open>G0\<close> sets it.
\<close>

theorem G1_ignores_feed_rate:
  "process_line (snd (create_printer float_digits)) (fst (create_printer float_digits)) ''G1 F3000'' =
     Returns (fst (create_printer float_digits)) \<and>
   process_line (snd (create_printer float_digits)) (fst (create_printer float_digits)) ''G0 F3000'' =
     Returns (fst (create_printer float_digits)\<lparr> feed_rate := Some 3000 \<rparr>)"
  by code_simp

subsection \<open>C4: parsing a line with a required parameter\<close>

text \<open>
  Claim C4 at an instruction with the required parameter \<open>X\<close> and the optional
  \<open>F\<close>. \<^verbatim>\<open>parse\<close> reads \<^verbatim>\<open>p.char\<close> one statement before it assigns \<^verbatim>\<open>p\<close>: on
  \<^verbatim>\<open>M1 X1\<close> the variable is still unbound, and on \<^verbatim>\<open>M1 F1 X2\<close> it still holds the
  parameter \<open>F\<close>, so \<open>X\<close> is reported missing although the line carries it.
\<close>

theorem parse_required_parameter_unbound:
  "parse \<lparr> cmd = ''M1'', required_params = param_dict [(''X'', float_digits)],
           optional_params = param_dict [(''F'', float_digits)], func = g28,
           ignore_unknown = True \<rparr> ''M1 X1'' = Inl UnboundLocalError \<and>
   parse \<lparr> cmd = ''M1'', required_params = param_dict [(''X'', float_digits)],
           optional_params = param_dict [(''F'', float_digits)], func = g28,
           ignore_unknown = True \<rparr> ''M1 F1 X2'' =
     Inl (RuntimeError (ArgumentsMissing ''M1'' {''X''}))"
  by (simp add: parse_def param_dict_def params_def float_digits_def digit_def)

subsection \<open>C5: missing required parameters\<close>

text \<open>
  Claim C5 at an instruction with the required parameters \<open>X\<close> and \<open>Y\<close> and the
  optional \<open>F\<close>, on lines that carry \<open>X\<close> and not \<open>Y\<close>: the missing set is \<open>Y\<close>
  alone. \<^verbatim>\<open>parse\<close> records \<^verbatim>\<open>p.char\<close> of the token before, not the letter of the
  token at hand. On \<^verbatim>\<open>M1 X2\<close> there is no token before and the read of \<^verbatim>\<open>p\<close>
  raises; on \<^verbatim>\<open>M1 F1 X2\<close> the letter recorded is \<open>F\<close>, and \<open>X\<close> is named as missing
  beside \<open>Y\<close>. Only when a second required token follows, as in \<^verbatim>\<open>M1 F1 X2 X3\<close>,
  is \<open>X\<close> recorded and taken out of the set.
\<close>

theorem parse_missing_set_wrong:
  "parse \<lparr> cmd = ''M1'',
           required_params = param_dict [(''X'', float_digits), (''Y'', float_digits)],
           optional_params = param_dict [(''F'', float_digits)], func = g28,
           ignore_unknown = True \<rparr> ''M1 X2'' = Inl UnboundLocalError \<and>
   parse \<lparr> cmd = ''M1'',
           required_params = param_dict [(''X'', float_digits), (''Y'', float_digits)],
           optional_params = param_dict [(''F'', float_digits)], func = g28,
           ignore_unknown = True \<rparr> ''M1 F1 X2'' =
     Inl (RuntimeError (ArgumentsMissing ''M1'' {''X'', ''Y''})) \<and>
   parse \<lparr> cmd = ''M1'',
           required_params = param_dict [(''X'', float_digits), (''Y'', float_digits)],
           optional_params = param_dict [(''F'', float_digits)], func = g28,
           ignore_unknown = True \<rparr> ''M1 F1 X2 X3'' =
     Inl (RuntimeError (ArgumentsMissing ''M1'' {''Y''}))"
  by (auto simp: parse_def param_dict_def params_def float_digits_def digit_def)

subsection \<open>C6: comment and blank lines\<close>

text \<open>
  Claim C6, as the code has it. A blank line, or a line whose stripped text starts
  with \<^verbatim>\<open>;\<close>, returns and leaves the state as it was when the line itself starts
  with \<^verbatim>\<open>;\<close>, or when the printer ignores unknown instructions and the empty
  command is not registered. \<^verbatim>\<open>process_line\<close> tests the unstripped line for \<^verbatim>\<open>;\<close>;
  the other lines reach the lookup with the empty command.
\<close>

theorem comment_or_blank_noop:
  assumes B: "strip gcode = [] \<or> startswith (strip gcode) '';''"
    and P: "startswith gcode '';'' \<or> iset [] = None \<and> VirtualPrinter.ignore_unknown printer"
  shows "process_line iset printer gcode = Returns printer"
proof (cases "startswith gcode '';''")
  case True
  then show ?thesis by (simp add: process_line_def)
next
  case False
  with comment_or_blank[OF B] have "strip (hd (split CHR '';'' gcode)) = []" by simp
  with False P show ?thesis by (simp add: process_line_def)
qed

text \<open>
  The theorem at an indented comment, on the fresh printer.
\<close>

theorem comment_or_blank_noop_witness:
  "process_line (snd (create_printer float_digits)) (fst (create_printer float_digits))
     ''  ; just a comment'' = Returns (fst (create_printer float_digits))"
proof (rule comment_or_blank_noop)
  show "strip ''  ; just a comment'' = [] \<or> startswith (strip ''  ; just a comment'') '';''"
    by (simp add: strip_def isspace_def startswith_def)
  show "startswith ''  ; just a comment'' '';'' \<or>
        snd (create_printer float_digits) [] = None \<and>
        VirtualPrinter.ignore_unknown (fst (create_printer float_digits))"
    by (simp add: registry_defs)
qed

text \<open>
  The claim fails for \<^verbatim>\<open>VirtualPrinter(ignore_unknown=False)\<close>: the empty line raises
  the error for an unknown instruction.
\<close>

theorem blank_line_fail_policy:
  "process_line (snd (create_printer float_digits))
     (fst (VirtualPrinter_init None None None None None None None None False True)) '''' =
   Raises (RuntimeError (UnknownInstruction ''''))
     (fst (VirtualPrinter_init None None None None None None None None False True))"
  by code_simp

subsection \<open>C7: G28\<close>

text \<open>
  Claim C7. For every state, a line whose command is \<^verbatim>\<open>G28\<close>, whatever non-empty
  tokens follow it, sets \<open>x\<close>, \<open>y\<close> and \<open>z\<close> to 0 and leaves every other field as
  it was. (An empty token, from two spaces in a row, makes \<^verbatim>\<open>parse\<close> raise
  \<^verbatim>\<open>IndexError\<close> for every command.)
\<close>

theorem G28_homes:
  assumes S: "tokens gcode = ''G28'' # toks"
    and T: "[] \<notin> set toks"
  shows "process_line (snd (create_printer float)) printer gcode =
           Returns (printer\<lparr> x := Some 0, y := Some 0, z := Some 0 \<rparr>)"
proof -
  let ?instr = "\<lparr> cmd = ''G28'', required_params = [], optional_params = [], func = g28,
            ignore_unknown = True \<rparr> :: 'a GCodeInstruction"
  have "\<exists>d. process_line (snd (create_printer float)) printer gcode = func ?instr printer d \<and>
           (\<forall>k. d k = (if k \<in> {} then given float k toks else None))"
  proof (rule process_line_uniform[where c = "''G28''" and fl = float])
    show "\<not> startswith gcode '';''" using command_not_comment[OF S] by simp
    show "tokens gcode = ''G28'' # toks" by (rule S)
    show "snd (create_printer float) ''G28'' = Some ?instr" by (rule lookup_G28)
    show "required_params ?instr = []" by simp
    show "GCodeInstruction.ignore_unknown ?instr" by simp
    show "params ?instr k = (if k \<in> {} then Some \<lparr> char = k, type = float \<rparr> else None)" for k
      by (rule params_none)
    show "\<forall>t\<in>set toks. t \<noteq> [] \<and> (take 1 t \<in> {} \<longrightarrow> (\<exists>v. float (drop 1 t) = Inr v))"
      using T by auto
  qed
  then show ?thesis by (auto simp: g28_def)
qed

text \<open>
  The theorem at \<^verbatim>\<open>G28 ; home\<close>, on a printer in relative position mode.
\<close>

theorem G28_homes_witness:
  "process_line (snd (create_printer float_digits))
     (fst (VirtualPrinter_init (Some 7) None (Some 2) (Some 4) (Some 60) (Some 200) None (Some 1500) True True)
        \<lparr> abs_mode := False \<rparr>) ''G28 ; home'' =
   Returns (fst (VirtualPrinter_init (Some 7) None (Some 2) (Some 4) (Some 60) (Some 200) None (Some 1500) True True)
        \<lparr> x := Some 0, y := Some 0, z := Some 0, abs_mode := False \<rparr>)"
proof -
  have S: "tokens ''G28 ; home'' = ''G28'' # []" by (simp add: tokens_def strip_def isspace_def)
  have T: "[] \<notin> set ([] :: string list)" by simp
  from G28_homes[OF S T, of float_digits] show ?thesis by (simp add: VirtualPrinter_init_def)
qed

subsection \<open>C8: G92\<close>

text \<open>
  Claim C8. For every state, whatever its two modes, a \<^verbatim>\<open>G92\<close> line whose tokens
  are not empty and whose \<open>X\<close>, \<open>Y\<close>, \<open>Z\<close> and \<open>E\<close> literals convert sets each of
  these coordinates that the line gives to the value given (the last one, when a
  letter is repeated) and leaves the coordinates it does not give, and every other
  field, as they were.
\<close>

theorem G92_sets_given_coordinates:
  assumes S: "tokens gcode = ''G92'' # toks"
    and T: "\<forall>t\<in>set toks. t \<noteq> [] \<and>
              (take 1 t \<in> {''X'', ''Y'', ''Z'', ''E''} \<longrightarrow> (\<exists>v. float (drop 1 t) = Inr v))"
  shows "process_line (snd (create_printer float)) printer gcode =
           Returns (printer\<lparr>
             x := (case given float ''X'' toks of Some v \<Rightarrow> Some v | None \<Rightarrow> x printer),
             y := (case given float ''Y'' toks of Some v \<Rightarrow> Some v | None \<Rightarrow> y printer),
             z := (case given float ''Z'' toks of Some v \<Rightarrow> Some v | None \<Rightarrow> z printer),
             e := (case given float ''E'' toks of Some v \<Rightarrow> Some v | None \<Rightarrow> e printer) \<rparr>)"
proof -
  have N: "\<not> startswith gcode '';''"
    using command_not_comment[OF S] by simp
  from process_line_XYZE[OF N S lookup_G92 T, of printer]
  obtain d where "process_line (snd (create_printer float)) printer gcode = g92 printer d"
    and "\<forall>k. d k = (if k \<in> {''X'', ''Y'', ''Z'', ''E''} then given float k toks else None)"
    by blast
  then show ?thesis by (simp add: g92_def get_def)
qed

text \<open>
  The theorem at \<^verbatim>\<open>G92 X1 E0 X3\<close>, on a printer in relative mode.
\<close>

theorem G92_sets_given_coordinates_witness:
  "process_line (snd (create_printer float_digits))
     (fst (VirtualPrinter_init (Some 7) (Some 8) (Some 2) (Some 4) None None None None True True)
        \<lparr> abs_mode := False, abs_e_mode := False \<rparr>) ''G92 X1 E0 X3'' =
   Returns (fst (VirtualPrinter_init (Some 7) (Some 8) (Some 2) (Some 4) None None None None True True)
        \<lparr> x := Some 3, e := Some 0, abs_mode := False, abs_e_mode := False \<rparr>)"
proof -
  have S: "tokens ''G92 X1 E0 X3'' = ''G92'' # [''X1'', ''E0'', ''X3'']"
    by (simp add: tokens_def strip_def isspace_def)
  have T: "\<forall>t\<in>set [''X1'', ''E0'', ''X3'']. t \<noteq> [] \<and>
              (take 1 t \<in> {''X'', ''Y'', ''Z'', ''E''} \<longrightarrow> (\<exists>v. float_digits (drop 1 t) = Inr v))"
    by (simp add: float_digits_def digit_def)
  have G: "given float_digits ''X'' [''X1'', ''E0'', ''X3''] = Some 3"
    "given float_digits ''Y'' [''X1'', ''E0'', ''X3''] = None"
    "given float_digits ''Z'' [''X1'', ''E0'', ''X3''] = None"
    "given float_digits ''E'' [''X1'', ''E0'', ''X3''] = Some 0"
    by (simp_all add: given_def float_digits_def digit_def)
  show ?thesis
    by (simp only: G92_sets_given_coordinates[OF S T] G) (simp add: VirtualPrinter_init_def)
qed

subsection \<open>C10: the constructor\<close>

text \<open>
  Claim C10. The constructor sets both modes to absolute whatever is passed for
  \<^verbatim>\<open>abs_mode\<close>: two calls that differ in that argument alone build the same
  printer.
\<close>

theorem init_ignores_abs_mode:
  "abs_mode (fst (VirtualPrinter_init x0 y0 z0 e0 b0 h0 f0 r0 i0 a)) = True \<and>
   abs_e_mode (fst (VirtualPrinter_init x0 y0 z0 e0 b0 h0 f0 r0 i0 a)) = True \<and>
   VirtualPrinter_init x0 y0 z0 e0 b0 h0 f0 r0 i0 a = VirtualPrinter_init x0 y0 z0 e0 b0 h0 f0 r0 i0 a'"
  by (simp add: VirtualPrinter_init_def)

end
